theory Spec2Isabelle
  imports Complex_Main "HOL-Library.Word" "HOL-Library.Signed_Division"
begin

section \<open>Metrics collection system: values, metrics, collector and writer\<close>

text \<open>
  The model follows \<^verbatim>\<open>MetricSystem.h\<close>, the two translation units of
  \<^verbatim>\<open>MetricSystem.cpp\<close> (typed values and metrics; writer), the collector
  (\<^verbatim>\<open>MetricCollector\<close>) and \<^verbatim>\<open>MetricUtilities.cpp\<close>.

  Conventions.
  \<^item> The template parameter \<^verbatim>\<open>T\<close> is instantiated in the source for
    \<^verbatim>\<open>int\<close>, \<^verbatim>\<open>long\<close>, \<^verbatim>\<open>float\<close> and \<^verbatim>\<open>double\<close>.
    \<^verbatim>\<open>int\<close> is a 32-bit word and \<^verbatim>\<open>long\<close> a 64-bit word (LP64); the
    integral functions are polymorphic in the width, so every statement about them
    holds for any width. Addition wraps around.
  \<^item> \<^verbatim>\<open>float\<close> and \<^verbatim>\<open>double\<close> are idealised as \<^typ>\<open>real\<close>: rounding,
    infinities and NaN are outside the model.
  \<^item> \<^verbatim>\<open>size_t\<close> is a 64-bit word.
  \<^item> An exception is a value of type \<open>error\<close>; a function that may throw returns
    \<open>error option\<close> (or a sum) together with the state it leaves behind.
  \<^item> What is written to \<^verbatim>\<open>std::cerr\<close> is returned as a list of lines.
  \<^item> Mutexes are not modelled: every function below is one sequential run of the
    source function. Where the source releases a lock in the middle of a function,
    the function is split at that point.
\<close>

subsection \<open>Exceptions\<close>

datatype error = invalid_argument string | runtime_error string

fun what :: "error \<Rightarrow> string" where
  "what (invalid_argument s) = s"
| "what (runtime_error s) = s"

subsection \<open>TypedMetricValue\<close>

text \<open>
  \<^verbatim>\<open>T value_; size_t count_;\<close> A name cannot end with an underscore here, so
  the members \<^verbatim>\<open>value_\<close> and \<^verbatim>\<open>count_\<close> of a value object are \<open>mv_value\<close> and
  \<open>mv_count\<close>, and the members of a \<^verbatim>\<open>TypedMetric\<close> are \<open>tm_name\<close>,
  \<open>tm_accumulated_value\<close> and \<open>tm_count\<close>.
\<close>

record 'a TypedMetricValue =
  mv_value :: 'a
  mv_count :: "64 word"

text \<open>\<^verbatim>\<open>TypedMetricValue(T value = T{}) : value_(value), count_(value != T{} ? 1 : 0)\<close>\<close>

definition mkTypedMetricValue :: "'a::zero \<Rightarrow> 'a TypedMetricValue" where
  "mkTypedMetricValue v = \<lparr> mv_value = v, mv_count = (if v \<noteq> 0 then 1 else 0) \<rparr>"

text \<open>
  \<^verbatim>\<open>T getValue() const { return count_ > 0 ? value_ / static_cast<T>(count_) : T{}; }\<close>
  For a floating type the counter is converted to the type and divides the total.
  For an integral type the counter is truncated to the width of \<^verbatim>\<open>T\<close>, read as a
  signed number, and the division truncates towards zero (\<open>sdiv\<close>). A zero divisor
  (a counter that is a non-zero multiple of \<open>2 ^ w\<close>) is undefined in the source; the
  values built by \<open>mkTypedMetricValue\<close> have a counter of 0 or 1.
\<close>

definition getValue_fp :: "real TypedMetricValue \<Rightarrow> real" where
  "getValue_fp mv =
     (if mv_count mv > 0 then mv_value mv / real (unat (mv_count mv)) else 0)"

definition getValue_int :: "'a::len word TypedMetricValue \<Rightarrow> 'a word" where
  "getValue_int mv =
     (if mv_count mv > 0
      then word_of_int (sint (mv_value mv) sdiv sint (ucast (mv_count mv) :: 'a word))
      else 0)"

text \<open>
  The standard library's formatting is a parameter of the model: the timestamp
  formatter (\<^verbatim>\<open>TimestampUtils::formatTimestamp\<close>, which depends on the local time
  zone), \<^verbatim>\<open>operator<<\<close> for an integer, and \<^verbatim>\<open>operator<<\<close> for a floating value
  under \<^verbatim>\<open>std::fixed << std::setprecision(2)\<close>.
\<close>

record 't stdlib =
  formatTimestamp :: "'t \<Rightarrow> string"
  show_int :: "int \<Rightarrow> string"
  show_fixed2 :: "real \<Rightarrow> string"

text \<open>\<^verbatim>\<open>TypedMetricValue<T>::toString\<close>, the two branches of \<^verbatim>\<open>if constexpr\<close>.\<close>

definition toString_fp :: "('t, 'x) stdlib_scheme \<Rightarrow> real TypedMetricValue \<Rightarrow> string" where
  "toString_fp lib mv =
     (if mv_count mv = 0 then ''0'' else show_fixed2 lib (getValue_fp mv))"

definition toString_int :: "('t, 'x) stdlib_scheme \<Rightarrow> 'a::len word TypedMetricValue \<Rightarrow> string" where
  "toString_int lib mv =
     (if mv_count mv = 0 then ''0'' else show_int lib (sint (getValue_int mv)))"

text \<open>\<^verbatim>\<open>TypedMetricValue<T>::reset\<close>\<close>

definition reset_value :: "'a::zero TypedMetricValue \<Rightarrow> 'a TypedMetricValue" where
  "reset_value mv = mv\<lparr> mv_value := 0, mv_count := 0 \<rparr>"

text \<open>
  A \<^verbatim>\<open>std::unique_ptr<MetricValue>\<close> that is not null points to one of the four
  instantiations; \<^verbatim>\<open>toString\<close> is virtual.
\<close>

datatype MetricValue =
    IntValue "32 word TypedMetricValue"
  | LongValue "64 word TypedMetricValue"
  | FloatValue "real TypedMetricValue"
  | DoubleValue "real TypedMetricValue"

fun toString :: "('t, 'x) stdlib_scheme \<Rightarrow> MetricValue \<Rightarrow> string" where
  "toString lib (IntValue mv) = toString_int lib mv"
| "toString lib (LongValue mv) = toString_int lib mv"
| "toString lib (FloatValue mv) = toString_fp lib mv"
| "toString lib (DoubleValue mv) = toString_fp lib mv"

subsection \<open>TypedMetric\<close>

text \<open>\<^verbatim>\<open>std::string name_; T accumulated_value_; size_t count_;\<close>\<close>

record 'a TypedMetric =
  tm_name :: string
  tm_accumulated_value :: 'a
  tm_count :: "64 word"

text \<open>\<^verbatim>\<open>TypedMetric(const std::string& name) : name_(name), accumulated_value_(T{}), count_(0)\<close>\<close>

definition mkTypedMetric :: "string \<Rightarrow> 'a::zero TypedMetric" where
  "mkTypedMetric name = \<lparr> tm_name = name, tm_accumulated_value = 0, tm_count = 0 \<rparr>"

text \<open>\<^verbatim>\<open>void recordValue(T value)\<close>: \<^verbatim>\<open>accumulated_value_ += value; count_++;\<close>\<close>

definition recordValue :: "'a::plus \<Rightarrow> 'a TypedMetric \<Rightarrow> 'a TypedMetric" where
  "recordValue v m =
     m\<lparr> tm_accumulated_value := tm_accumulated_value m + v, tm_count := tm_count m + 1 \<rparr>"

text \<open>
  \<^verbatim>\<open>TypedMetric<T>::getAccumulatedValue\<close>. The result is a
  \<^verbatim>\<open>std::unique_ptr\<close>, which the caller tests for null: the model returns an option,
  and \<open>None\<close> is the null pointer. Every branch of the source returns
  \<^verbatim>\<open>std::make_unique<...>(...)\<close>.
\<close>

definition getAccumulatedValue_fp :: "real TypedMetric \<Rightarrow> real TypedMetricValue option" where
  "getAccumulatedValue_fp m =
     (if tm_count m = 0 then Some (mkTypedMetricValue 0)
      else let average = tm_accumulated_value m / real (unat (tm_count m))
           in Some (mkTypedMetricValue average))"

definition getAccumulatedValue_int :: "'a::len word TypedMetric \<Rightarrow> 'a word TypedMetricValue option" where
  "getAccumulatedValue_int m =
     (if tm_count m = 0 then Some (mkTypedMetricValue 0)
      else Some (mkTypedMetricValue (tm_accumulated_value m)))"

text \<open>\<^verbatim>\<open>TypedMetric<T>::reset\<close>: \<^verbatim>\<open>accumulated_value_ = T{}; count_ = 0;\<close>\<close>

definition reset :: "'a::zero TypedMetric \<Rightarrow> 'a TypedMetric" where
  "reset m = m\<lparr> tm_accumulated_value := 0, tm_count := 0 \<rparr>"

text \<open>
  A \<^verbatim>\<open>std::unique_ptr<Metric>\<close> in the collector points to one of the four
  instantiations of \<^verbatim>\<open>TypedMetric\<close>; the methods of \<^verbatim>\<open>Metric\<close> are virtual.
\<close>

datatype Metric =
    IntMetric "32 word TypedMetric"
  | LongMetric "64 word TypedMetric"
  | FloatMetric "real TypedMetric"
  | DoubleMetric "real TypedMetric"

fun getName :: "Metric \<Rightarrow> string" where
  "getName (IntMetric m) = tm_name m"
| "getName (LongMetric m) = tm_name m"
| "getName (FloatMetric m) = tm_name m"
| "getName (DoubleMetric m) = tm_name m"

fun getAccumulatedValue :: "Metric \<Rightarrow> MetricValue option" where
  "getAccumulatedValue (IntMetric m) = map_option IntValue (getAccumulatedValue_int m)"
| "getAccumulatedValue (LongMetric m) = map_option LongValue (getAccumulatedValue_int m)"
| "getAccumulatedValue (FloatMetric m) = map_option FloatValue (getAccumulatedValue_fp m)"
| "getAccumulatedValue (DoubleMetric m) = map_option DoubleValue (getAccumulatedValue_fp m)"

fun reset_metric :: "Metric \<Rightarrow> Metric" where
  "reset_metric (IntMetric m) = IntMetric (reset m)"
| "reset_metric (LongMetric m) = LongMetric (reset m)"
| "reset_metric (FloatMetric m) = FloatMetric (reset m)"
| "reset_metric (DoubleMetric m) = DoubleMetric (reset m)"

text \<open>
  \<^verbatim>\<open>TypedMetric<T>::recordValue(std::unique_ptr<MetricValue> value)\<close>, the
  overload of the \<^verbatim>\<open>Metric\<close> interface: the value is cast to
  \<^verbatim>\<open>TypedMetricValue<T>\<close>; if the cast yields null the function throws, otherwise
  \<^verbatim>\<open>accumulated_value_ += typed_value->getValue(); count_++;\<close>
\<close>

fun recordValue_ptr :: "MetricValue \<Rightarrow> Metric \<Rightarrow> error + Metric" where
  "recordValue_ptr (IntValue v) (IntMetric m) = Inr (IntMetric (recordValue (getValue_int v) m))"
| "recordValue_ptr (LongValue v) (LongMetric m) = Inr (LongMetric (recordValue (getValue_int v) m))"
| "recordValue_ptr (FloatValue v) (FloatMetric m) = Inr (FloatMetric (recordValue (getValue_fp v) m))"
| "recordValue_ptr (DoubleValue v) (DoubleMetric m) =
     Inr (DoubleMetric (recordValue (getValue_fp v) m))"
| "recordValue_ptr v metric =
     Inl (invalid_argument (''Invalid metric value type for metric: '' @ getName metric))"

text \<open>The number of samples a metric holds since its last reset, as the source counts them.\<close>

fun sample_count :: "Metric \<Rightarrow> 64 word" where
  "sample_count (IntMetric m) = tm_count m"
| "sample_count (LongMetric m) = tm_count m"
| "sample_count (FloatMetric m) = tm_count m"
| "sample_count (DoubleMetric m) = tm_count m"

subsection \<open>MetricNameValidator\<close>

text \<open>
  \<^verbatim>\<open>if (c == '"' || c == '\n' || c == '\r' || c == '\t' || c < 32) return false;\<close>
  \<^verbatim>\<open>char\<close> is signed on the platforms the project targets (x86, MSVC and GCC), so a
  byte of 128 or more compares below 32.
\<close>

definition char_value :: "char \<Rightarrow> int" where
  "char_value c = (if (of_char c :: int) \<ge> 128 then of_char c - 256 else of_char c)"

definition invalid_char :: "char \<Rightarrow> bool" where
  "invalid_char c \<longleftrightarrow>
     c = CHR 0x22 \<or> c = CHR 0x0A \<or> c = CHR 0x0D \<or> c = CHR 0x09 \<or> char_value c < 32"

fun no_invalid_char :: "string \<Rightarrow> bool" where
  "no_invalid_char [] = True"
| "no_invalid_char (c # cs) = (if invalid_char c then False else no_invalid_char cs)"

definition isValidName :: "string \<Rightarrow> bool" where
  "isValidName name = (if name = [] then False else no_invalid_char name)"

definition formatNameForOutput :: "string \<Rightarrow> error + string" where
  "formatNameForOutput name =
     (if \<not> isValidName name
      then Inl (invalid_argument (''Cannot format invalid metric name: '' @ name))
      else Inr ([CHR 0x22] @ name @ [CHR 0x22]))"

subsection \<open>MetricRegistry\<close>

text \<open>\<^verbatim>\<open>std::unordered_map<std::string, std::unique_ptr<Metric>> metrics_;\<close>\<close>

type_synonym MetricRegistry = "string \<rightharpoonup> Metric"

definition MetricRegistry_registerMetric ::
  "string \<Rightarrow> Metric \<Rightarrow> MetricRegistry \<Rightarrow> error option \<times> MetricRegistry" where
  "MetricRegistry_registerMetric name metric r =
     (if \<not> isValidName name
      then (Some (invalid_argument (''Invalid metric name: '' @ name)), r)
      else if r name \<noteq> None
      then (Some (invalid_argument (''Metric already registered: '' @ name)), r)
      else (None, r(name \<mapsto> metric)))"

subsection \<open>MetricWriter\<close>

text \<open>
  The \<^verbatim>\<open>std::ofstream\<close> is its open flag, its error state and the operations
  applied to it, in order: \<^verbatim>\<open><<\<close> of a string, \<^verbatim>\<open><< std::endl\<close> and
  \<^verbatim>\<open>flush()\<close>. The error state \<open>failed\<close> is what \<^verbatim>\<open>fail()\<close> reports
  (\<^verbatim>\<open>failbit\<close> or \<^verbatim>\<open>badbit\<close>, set by the library when an output operation
  fails, for instance on a full disk). While it is set the library ignores every
  output operation: the operation is applied, has no effect on the file, throws
  nothing (the source never calls \<^verbatim>\<open>exceptions()\<close>) and leaves the state set. The
  source never tests the state and never clears it, so no function below reads or
  changes \<open>failed\<close>. A stream that has not failed is taken to stay so: the device
  accepts what is written.
\<close>

datatype stream_op = Put string | Endl | Flush

record ofstream =
  is_open :: bool
  failed :: bool
  ops :: "stream_op list"

definition stream_put :: "string \<Rightarrow> ofstream \<Rightarrow> ofstream" where
  "stream_put s fs = fs\<lparr> ops := ops fs @ [Put s] \<rparr>"

definition stream_endl :: "ofstream \<Rightarrow> ofstream" where
  "stream_endl fs = fs\<lparr> ops := ops fs @ [Endl] \<rparr>"

definition stream_flush :: "ofstream \<Rightarrow> ofstream" where
  "stream_flush fs = fs\<lparr> ops := ops fs @ [Flush] \<rparr>"

record MetricWriter =
  output_file :: string
  file_stream :: ofstream

text \<open>
  \<^verbatim>\<open>struct MetricEntry { TimePoint timestamp; std::string name; std::unique_ptr<MetricValue> value; }\<close>
  The value of an entry is the non-null pointer the collector moved into it.
\<close>

record 't MetricEntry =
  entry_timestamp :: 't
  entry_name :: string
  entry_value :: MetricValue

text \<open>
  The body of the loop of \<^verbatim>\<open>MetricWriter::writeMetrics\<close>: the three strings are
  computed first (\<^verbatim>\<open>formatNameForOutput\<close> may throw), then written; the handler
  logs and goes on to the next entry.
\<close>

definition write_entry ::
  "('t, 'x) stdlib_scheme \<Rightarrow> 't MetricEntry \<Rightarrow> ofstream \<Rightarrow> ofstream \<times> string list" where
  "write_entry lib entry fs =
     (let timestamp_str = formatTimestamp lib (entry_timestamp entry) in
      case formatNameForOutput (entry_name entry) of
        Inl e \<Rightarrow>
          (fs, [''Error formatting metric entry '' @ [CHR 0x27] @ entry_name entry
                  @ [CHR 0x27] @ '': '' @ what e])
      | Inr metric_name \<Rightarrow>
          (let value_str = toString lib (entry_value entry) in
           (stream_endl
              (stream_put value_str (stream_put '' '' (stream_put metric_name
                 (stream_put '' '' (stream_put timestamp_str fs))))), [])))"

fun write_entries ::
  "('t, 'x) stdlib_scheme \<Rightarrow> 't MetricEntry list \<Rightarrow> ofstream \<Rightarrow> ofstream \<times> string list" where
  "write_entries lib [] fs = (fs, [])"
| "write_entries lib (entry # entries) fs =
     (let (fs1, msgs1) = write_entry lib entry fs;
          (fs2, msgs2) = write_entries lib entries fs1
      in (fs2, msgs1 @ msgs2))"

text \<open>
  \<^verbatim>\<open>MetricWriter::writeMetrics\<close>: the exception thrown (if any), the writer afterwards
  and the lines logged.
\<close>

definition writeMetrics ::
  "('t, 'x) stdlib_scheme \<Rightarrow> 't MetricEntry list \<Rightarrow> MetricWriter
     \<Rightarrow> error option \<times> MetricWriter \<times> string list" where
  "writeMetrics lib entries w =
     (if entries = [] then (None, w, [])
      else if \<not> is_open (file_stream w)
      then (Some (runtime_error ''Output file is not open''), w, [])
      else (let (fs, msgs) = write_entries lib entries (file_stream w)
            in (None, w\<lparr> file_stream := stream_flush fs \<rparr>, msgs)))"

subsection \<open>MetricCollector\<close>

text \<open>
  \<^verbatim>\<open>std::vector<std::unique_ptr<Metric>> metrics_; std::atomic<bool> running_;
  std::unique_ptr<MetricWriter> writer_;\<close> The queue \<^verbatim>\<open>pending_entries_\<close> is never
  used by the source. The worker thread is not part of the state: one iteration of
  its loop is one call of \<open>collectCurrentMetrics\<close>.
\<close>

record MetricCollector =
  metrics :: "Metric list"
  running :: bool
  writer :: MetricWriter

text \<open>The template argument of \<^verbatim>\<open>registerMetric<T>\<close> and a value of one of the four types.\<close>

datatype ctype = T_int | T_long | T_float | T_double

datatype sample =
    IntSample "32 word"
  | LongSample "64 word"
  | FloatSample real
  | DoubleSample real

fun sample_type :: "sample \<Rightarrow> ctype" where
  "sample_type (IntSample v) = T_int"
| "sample_type (LongSample v) = T_long"
| "sample_type (FloatSample v) = T_float"
| "sample_type (DoubleSample v) = T_double"

text \<open>\<^verbatim>\<open>std::make_unique<TypedMetric<T>>(name)\<close>\<close>

fun make_metric :: "ctype \<Rightarrow> string \<Rightarrow> Metric" where
  "make_metric T_int name = IntMetric (mkTypedMetric name)"
| "make_metric T_long name = LongMetric (mkTypedMetric name)"
| "make_metric T_float name = FloatMetric (mkTypedMetric name)"
| "make_metric T_double name = DoubleMetric (mkTypedMetric name)"

text \<open>
  \<^verbatim>\<open>std::find_if\<close> over the vector: the position of the first element that satisfies
  the predicate; \<open>None\<close> is \<^verbatim>\<open>end()\<close>.
\<close>

fun find_if :: "('a \<Rightarrow> bool) \<Rightarrow> 'a list \<Rightarrow> nat option" where
  "find_if P [] = None"
| "find_if P (x # xs) = (if P x then Some 0 else map_option Suc (find_if P xs))"

text \<open>\<^verbatim>\<open>MetricCollector::registerMetric<T>\<close>\<close>

definition registerMetric ::
  "ctype \<Rightarrow> string \<Rightarrow> MetricCollector \<Rightarrow> error option \<times> MetricCollector" where
  "registerMetric T name c =
     (case find_if (\<lambda>metric. getName metric = name) (metrics c) of
        Some it \<Rightarrow> (Some (invalid_argument (''Metric already registered: '' @ name)), c)
      | None \<Rightarrow> (None, c\<lparr> metrics := metrics c @ [make_metric T name] \<rparr>))"

text \<open>
  \<^verbatim>\<open>dynamic_cast<TypedMetric<T>*>(target_metric)\<close> followed by
  \<^verbatim>\<open>if (typed_metric) typed_metric->recordValue(value);\<close> The cast of a pointer
  yields null when the types differ (\<open>None\<close>) and throws nothing.
\<close>

fun record_typed :: "sample \<Rightarrow> Metric \<Rightarrow> Metric option" where
  "record_typed (IntSample v) (IntMetric m) = Some (IntMetric (recordValue v m))"
| "record_typed (LongSample v) (LongMetric m) = Some (LongMetric (recordValue v m))"
| "record_typed (FloatSample v) (FloatMetric m) = Some (FloatMetric (recordValue v m))"
| "record_typed (DoubleSample v) (DoubleMetric m) = Some (DoubleMetric (recordValue v m))"
| "record_typed _ _ = None"

definition record_target :: "nat \<Rightarrow> sample \<Rightarrow> MetricCollector \<Rightarrow> MetricCollector" where
  "record_target it v c =
     (case record_typed v (metrics c ! it) of
        Some m \<Rightarrow> c\<lparr> metrics := (metrics c)[it := m] \<rparr>
      | None \<Rightarrow> c)"

text \<open>
  \<^verbatim>\<open>MetricCollector::recordMetric<T>\<close>: the collector afterwards and the lines
  logged. The function returns \<^verbatim>\<open>void\<close> and catches what it calls, so no exception
  leaves it. The handler around \<^verbatim>\<open>recordValue\<close> is never entered, since neither
  the cast nor \<^verbatim>\<open>recordValue(T)\<close> throws.
\<close>

definition recordMetric ::
  "string \<Rightarrow> sample \<Rightarrow> MetricCollector \<Rightarrow> MetricCollector \<times> string list" where
  "recordMetric name v c =
     (if \<not> running c then (c, [])
      else case find_if (\<lambda>metric. getName metric = name) (metrics c) of
        Some it \<Rightarrow> (record_target it v c, [])
      | None \<Rightarrow>
          (case registerMetric (sample_type v) name c of
             (Some e, c1) \<Rightarrow>
               (c1, [''Failed to auto-register metric '' @ [CHR 0x27] @ name
                       @ [CHR 0x27] @ '': '' @ what e])
           | (None, c1) \<Rightarrow>
               (case find_if (\<lambda>metric. getName metric = name) (metrics c1) of
                  Some it \<Rightarrow> (record_target it v c1, [])
                | None \<Rightarrow> (c1, []))))"

text \<open>
  \<^verbatim>\<open>MetricCollector::collectCurrentMetrics\<close>, first block (under
  \<^verbatim>\<open>metrics_mutex_\<close>): one entry for every metric whose
  \<^verbatim>\<open>getAccumulatedValue()\<close> is not a null pointer.
\<close>

fun collect_entries :: "'t \<Rightarrow> Metric list \<Rightarrow> 't MetricEntry list" where
  "collect_entries timestamp [] = []"
| "collect_entries timestamp (metric # rest) =
     (case getAccumulatedValue metric of
        Some accumulated_value \<Rightarrow>
          \<lparr> entry_timestamp = timestamp, entry_name = getName metric,
            entry_value = accumulated_value \<rparr> # collect_entries timestamp rest
      | None \<Rightarrow> collect_entries timestamp rest)"

text \<open>
  Second block (the lock is released before it and taken again for the resets):
  write, and reset every metric if \<^verbatim>\<open>writeMetrics\<close> did not throw.
\<close>

definition write_and_reset ::
  "('t, 'x) stdlib_scheme \<Rightarrow> 't MetricEntry list \<Rightarrow> MetricCollector
     \<Rightarrow> MetricCollector \<times> string list" where
  "write_and_reset lib entries c =
     (if entries \<noteq> [] then
        (case writeMetrics lib entries (writer c) of
           (None, w, msgs) \<Rightarrow> (c\<lparr> writer := w, metrics := map reset_metric (metrics c) \<rparr>, msgs)
         | (Some e, w, msgs) \<Rightarrow> (c\<lparr> writer := w \<rparr>, msgs @ [''Error writing metrics: '' @ what e]))
      else (c, []))"

definition collectCurrentMetrics ::
  "('t, 'x) stdlib_scheme \<Rightarrow> 't \<Rightarrow> MetricCollector \<Rightarrow> MetricCollector \<times> string list" where
  "collectCurrentMetrics lib timestamp c =
     write_and_reset lib (collect_entries timestamp (metrics c)) c"

text \<open>\<^verbatim>\<open>start\<close>, \<^verbatim>\<open>stop\<close> (with its final flush) and \<^verbatim>\<open>flush\<close>.\<close>

definition MetricCollector_start :: "MetricCollector \<Rightarrow> MetricCollector" where
  "MetricCollector_start c = (if running c then c else c\<lparr> running := True \<rparr>)"

definition MetricCollector_stop ::
  "('t, 'x) stdlib_scheme \<Rightarrow> 't \<Rightarrow> MetricCollector \<Rightarrow> MetricCollector \<times> string list" where
  "MetricCollector_stop lib timestamp c =
     (if \<not> running c then (c, [])
      else collectCurrentMetrics lib timestamp (c\<lparr> running := False \<rparr>))"

definition MetricCollector_flush ::
  "('t, 'x) stdlib_scheme \<Rightarrow> 't \<Rightarrow> MetricCollector \<Rightarrow> MetricCollector \<times> string list" where
  "MetricCollector_flush lib timestamp c =
     (if \<not> running c then (c, []) else collectCurrentMetrics lib timestamp c)"

subsection \<open>Notions used to state the properties\<close>

text \<open>The instantiation a metric object belongs to (what \<^verbatim>\<open>dynamic_cast\<close> tests).\<close>

fun metric_type :: "Metric \<Rightarrow> ctype" where
  "metric_type (IntMetric m) = T_int"
| "metric_type (LongMetric m) = T_long"
| "metric_type (FloatMetric m) = T_float"
| "metric_type (DoubleMetric m) = T_double"

text \<open>
  The line of an entry as the writer is meant to put it on the stream:
  \<^verbatim>\<open><timestamp> "<metric-name>" <rendered-value>\<close> and the end of the line; and
  the line logged for an entry whose name cannot be formatted.
\<close>

definition entry_line_ops :: "('t, 'x) stdlib_scheme \<Rightarrow> 't MetricEntry \<Rightarrow> stream_op list" where
  "entry_line_ops lib e =
     [Put (formatTimestamp lib (entry_timestamp e)), Put '' '',
      Put ([CHR 0x22] @ entry_name e @ [CHR 0x22]), Put '' '',
      Put (toString lib (entry_value e)), Endl]"

definition skipped_message :: "'t MetricEntry \<Rightarrow> string" where
  "skipped_message e =
     ''Error formatting metric entry '' @ [CHR 0x27] @ entry_name e @ [CHR 0x27]
       @ '': Cannot format invalid metric name: '' @ entry_name e"

subsection \<open>A concrete library and concrete states, for evaluation\<close>

text \<open>
  Decimal output, and an instance of the library parameter: time points are
  milliseconds and print as their number; a fractional value is rounded to the
  nearest hundredth and printed with two decimals.
\<close>

definition digit :: "nat \<Rightarrow> char" where
  "digit n = ''0123456789'' ! n"

function show_nat :: "nat \<Rightarrow> string" where
  "show_nat n = (if n < 10 then [digit n] else show_nat (n div 10) @ [digit (n mod 10)])"
  by pat_completeness auto
termination
  by (relation "measure id") auto

definition show_dec :: "int \<Rightarrow> string" where
  "show_dec i = (if i < 0 then ''-'' @ show_nat (nat (- i)) else show_nat (nat i))"

definition show_hundredths :: "int \<Rightarrow> string" where
  "show_hundredths h =
     (if h < 0 then ''-'' else []) @ show_nat (nat \<bar>h\<bar> div 100) @ ''.''
       @ [digit (nat \<bar>h\<bar> div 10 mod 10), digit (nat \<bar>h\<bar> mod 10)]"

definition example_lib :: "nat stdlib" where
  "example_lib =
     \<lparr> formatTimestamp = show_nat,
       show_int = show_dec,
       show_fixed2 = (\<lambda>r. show_hundredths (round (r * 100))) \<rparr>"

definition example_writer :: "bool \<Rightarrow> MetricWriter" where
  "example_writer opened =
     \<lparr> output_file = ''metrics.txt'',
       file_stream = \<lparr> is_open = opened, failed = False, ops = [] \<rparr> \<rparr>"

definition example_collector :: "Metric list \<Rightarrow> bool \<Rightarrow> bool \<Rightarrow> MetricCollector" where
  "example_collector ms run opened =
     \<lparr> metrics = ms, running = run, writer = example_writer opened \<rparr>"

section \<open>Properties\<close>

subsection \<open>Auxiliary facts\<close>

lemma find_if_None_iff: "find_if P xs = None \<longleftrightarrow> (\<forall>x\<in>set xs. \<not> P x)"
  by (induction xs) auto

lemma record_typed_None_iff: "record_typed v m = None \<longleftrightarrow> metric_type m \<noteq> sample_type v"
  by (cases v; cases m) simp_all

lemma collect_entries_names: "map entry_name (collect_entries ts ms) = map getName ms"
proof (induction ms)
  case Nil
  show ?case by simp
next
  case (Cons m ms)
  then show ?case
    by (cases m) (simp_all add: getAccumulatedValue_int_def getAccumulatedValue_fp_def Let_def)
qed

lemma write_entry_valid:
  "isValidName (entry_name e) \<Longrightarrow>
   write_entry lib e fs = (fs\<lparr> ops := ops fs @ entry_line_ops lib e \<rparr>, [])"
  by (simp add: write_entry_def formatNameForOutput_def entry_line_ops_def
      stream_put_def stream_endl_def)

lemma write_entry_invalid:
  "\<not> isValidName (entry_name e) \<Longrightarrow> write_entry lib e fs = (fs, [skipped_message e])"
  by (simp add: write_entry_def formatNameForOutput_def skipped_message_def)

lemma write_entries_eq:
  "write_entries lib es fs =
     (fs\<lparr> ops := ops fs @ concat (map (entry_line_ops lib)
                                    (filter (\<lambda>e. isValidName (entry_name e)) es)) \<rparr>,
      map skipped_message (filter (\<lambda>e. \<not> isValidName (entry_name e)) es))"
proof (induction es arbitrary: fs)
  case Nil
  show ?case by simp
next
  case (Cons e es)
  show ?case
  proof (cases "isValidName (entry_name e)")
    case True
    then show ?thesis by (simp add: write_entry_valid Cons.IH)
  next
    case False
    then show ?thesis by (simp add: write_entry_invalid Cons.IH)
  qed
qed

text \<open>A value object built from \<open>v\<close> reads back as \<open>v\<close>, in every width.\<close>

lemma getValue_fp_mk: "getValue_fp (mkTypedMetricValue v) = v"
  by (simp add: getValue_fp_def mkTypedMetricValue_def)

lemma neg_one_bit: "LENGTH('a::len) = 1 \<Longrightarrow> - v = (v :: 'a word)"
proof -
  assume len: "LENGTH('a) = 1"
  have "v + v = v * 2 ^ LENGTH('a)"
    by (simp add: len)
  also have "\<dots> = 0"
    by (simp only: word_pow_0 mult_zero_right)
  finally show ?thesis
    by (simp add: eq_neg_iff_add_eq_0)
qed

lemma getValue_int_mk: "getValue_int (mkTypedMetricValue v) = (v :: 'a::len word)"
proof (cases "LENGTH('a) = 1")
  case True
  then have "sint (1 :: 'a word) = - 1" by simp
  then show ?thesis
    using neg_one_bit [OF True, of v]
    by (simp add: getValue_int_def mkTypedMetricValue_def)
next
  case False
  then have "sint (1 :: 'a word) = 1" by simp
  then show ?thesis
    by (simp add: getValue_int_def mkTypedMetricValue_def)
qed

text \<open>The state of a metric after a sequence of \<^verbatim>\<open>recordValue\<close> calls.\<close>

lemma fold_recordValue:
  fixes m :: "'a::comm_monoid_add TypedMetric"
  shows "fold recordValue xs m =
     m\<lparr> tm_accumulated_value := tm_accumulated_value m + sum_list xs,
        tm_count := tm_count m + of_nat (length xs) \<rparr>"
  by (induction xs arbitrary: m) (simp_all add: recordValue_def add.assoc)

lemma sum_list_word_of_int:
  "sum_list xs = (word_of_int (sum_list (map sint xs)) :: 'a::len word)"
  by (induction xs) simp_all

lemma sint_sum_list_exact:
  fixes xs :: "'a::len word list"
  assumes "- (2 ^ (LENGTH('a) - 1)) \<le> sum_list (map sint xs)"
    and "sum_list (map sint xs) < 2 ^ (LENGTH('a) - 1)"
  shows "sint (sum_list xs) = sum_list (map sint xs)"
proof -
  have "signed_take_bit (LENGTH('a) - 1) (sum_list (map sint xs)) = sum_list (map sint xs)"
    by (rule signed_take_bit_int_eq_self [OF assms])
  moreover have "sint (sum_list xs) = sint (word_of_int (sum_list (map sint xs)) :: 'a word)"
    using sum_list_word_of_int [of xs] by simp
  ultimately show ?thesis
    by (simp only: sint_sbintrunc')
qed

lemma unat_count: "n < 2 ^ 64 \<Longrightarrow> unat (of_nat n :: 64 word) = n"
  by (simp add: unat_of_nat)

lemma count_zero: "n < 2 ^ 64 \<Longrightarrow> ((of_nat n :: 64 word) = 0) = (n = 0)"
proof
  assume n: "n < 2 ^ 64" and z: "(of_nat n :: 64 word) = 0"
  have "unat (of_nat n :: 64 word) = n"
    using n by (rule unat_count)
  with z show "n = 0" by simp
next
  assume "n = 0"
  then show "(of_nat n :: 64 word) = 0" by simp
qed

text \<open>What a metric yields after a sequence of calls, and what a reset leaves.\<close>

lemma flushed_mean:
  assumes "length xs < 2 ^ 64"
  shows "map_option getValue_fp (getAccumulatedValue_fp (fold recordValue xs (reset m)))
           = Some (sum_list xs / real (length xs))"
  using assms
  by (simp add: fold_recordValue reset_def getAccumulatedValue_fp_def getValue_fp_mk
      unat_count count_zero Let_def)

lemma flushed_sum:
  fixes ys :: "'a::len word list"
  assumes "length ys < 2 ^ 64"
  shows "map_option getValue_int (getAccumulatedValue_int (fold recordValue ys (reset m)))
           = Some (sum_list ys)"
  using assms
  by (simp add: fold_recordValue reset_def getAccumulatedValue_int_def getValue_int_mk
      count_zero)

lemma successful_flush_resets:
  assumes "is_open (file_stream (writer c))" and "metrics c \<noteq> []"
  shows "metrics (fst (collectCurrentMetrics lib ts c)) = map reset_metric (metrics c)"
proof -
  have "collect_entries ts (metrics c) \<noteq> []"
    using collect_entries_names [of ts "metrics c"] assms(2) by (metis map_is_Nil_conv)
  then show ?thesis
    using assms(1)
    by (simp add: collectCurrentMetrics_def write_and_reset_def writeMetrics_def
        split: prod.splits)
qed

text \<open>The concrete library and the name validator on the names of the examples.\<close>

lemma show_dec_examples: "show_dec 10 = ''10''" "show_dec 30 = ''30''" "show_nat 1653 = ''1653''"
  by (simp_all add: show_dec_def digit_def)

lemma valid_examples: "isValidName ''CPU''" "isValidName ''HTTP''" "\<not> isValidName ''''"
  "\<not> isValidName [CHR ''a'', CHR 0x22]"
  by (simp_all add: isValidName_def invalid_char_def char_value_def)

text \<open>\<^verbatim>\<open>MetricRegistry::registerMetric\<close> rejects every name the validator rejects.\<close>

lemma MetricRegistry_rejects_invalid_name:
  "\<not> isValidName name \<Longrightarrow>
   MetricRegistry_registerMetric name metric r
     = (Some (invalid_argument (''Invalid metric name: '' @ name)), r)"
  by (simp add: MetricRegistry_registerMetric_def)

text \<open>
  \<^verbatim>\<open>MetricCollector::registerMetric\<close> stores a metric under any name that is not
  taken, whatever the validator says about it.
\<close>

lemma registerMetric_fresh_name:
  "name \<notin> getName ` set (metrics c) \<Longrightarrow>
   registerMetric T name c = (None, c\<lparr> metrics := metrics c @ [make_metric T name] \<rparr>)"
proof -
  assume "name \<notin> getName ` set (metrics c)"
  then have "find_if (\<lambda>metric. getName metric = name) (metrics c) = None"
    by (auto simp: find_if_None_iff)
  then show ?thesis
    by (simp add: registerMetric_def)
qed

text \<open>
  Whatever is recorded between the reading of a metric and its reset is discarded
  by the reset.
\<close>

lemma reset_discards_recorded:
  fixes m :: "'a::comm_monoid_add TypedMetric"
  shows "reset (fold recordValue ys m) = reset m"
  by (simp add: fold_recordValue reset_def)

text \<open>A flush cycle leaves the running flag alone, so a stopped collector is idle.\<close>

lemma running_collectCurrentMetrics:
  "running (fst (collectCurrentMetrics lib ts c)) = running c"
  by (simp add: collectCurrentMetrics_def write_and_reset_def split: prod.splits option.splits)

lemma idle_after_stop: "\<not> running (fst (MetricCollector_stop lib ts c))"
  by (simp add: MetricCollector_stop_def running_collectCurrentMetrics)

subsection \<open>The scenarios of the specification\<close>

text \<open>
  Register a \<^verbatim>\<open>double\<close> metric \<open>CPU\<close> and an \<^verbatim>\<open>int\<close> metric \<open>HTTP\<close>, start
  the collector, record 0.5 and 1.0 on \<open>CPU\<close> and 10 and 20 on \<open>HTTP\<close>, and flush:
  the lines written carry \<^verbatim>\<open>0.75\<close> and \<^verbatim>\<open>30\<close>, and both metrics are reset.
\<close>

lemma fixed2_example: "show_fixed2 example_lib (3 / 4) = ''0.75''"
  by (simp add: example_lib_def show_hundredths_def digit_def)

lemma scenario_record:
  "fst (recordMetric ''HTTP'' (IntSample 20)
     (fst (recordMetric ''HTTP'' (IntSample 10)
       (fst (recordMetric ''CPU'' (DoubleSample 1)
         (fst (recordMetric ''CPU'' (DoubleSample (1 / 2))
           (MetricCollector_start
             (snd (registerMetric T_int ''HTTP''
               (snd (registerMetric T_double ''CPU'' (example_collector [] False True)))))))))))))
   = example_collector
       [DoubleMetric \<lparr> tm_name = ''CPU'', tm_accumulated_value = 3 / 2, tm_count = 2 \<rparr>,
        IntMetric \<lparr> tm_name = ''HTTP'', tm_accumulated_value = 30, tm_count = 2 \<rparr>] True True"
  by (simp add: recordMetric_def registerMetric_def MetricCollector_start_def record_target_def
      recordValue_def example_collector_def mkTypedMetric_def)

lemma scenario_flush:
  "MetricCollector_flush example_lib 1653
     (example_collector
       [DoubleMetric \<lparr> tm_name = ''CPU'', tm_accumulated_value = 3 / 2, tm_count = 2 \<rparr>,
        IntMetric \<lparr> tm_name = ''HTTP'', tm_accumulated_value = 30, tm_count = 2 \<rparr>] True True)
   = (\<lparr> metrics = [DoubleMetric (mkTypedMetric ''CPU''), IntMetric (mkTypedMetric ''HTTP'')],
        running = True,
        writer = \<lparr> output_file = ''metrics.txt'',
          file_stream = \<lparr> is_open = True, failed = False,
            ops = [Put ''1653'', Put '' '', Put (CHR 0x22 # ''CPU'' @ [CHR 0x22]), Put '' '',
                   Put ''0.75'', Endl,
                   Put ''1653'', Put '' '', Put (CHR 0x22 # ''HTTP'' @ [CHR 0x22]), Put '' '',
                   Put ''30'', Endl,
                   Flush] \<rparr> \<rparr> \<rparr>,
      [])"
proof -
  have g: "getValue_int \<lparr> mv_value = 30 :: 32 word, mv_count = 1 \<rparr> = 30"
    by (simp add: getValue_int_def)
  have l: "formatTimestamp example_lib = show_nat" "show_int example_lib = show_dec"
    by (simp_all add: example_lib_def)
  have v: "getValue_fp \<lparr> mv_value = 3 / 4, mv_count = 1 \<rparr> = 3 / 4"
    by (simp add: getValue_fp_def)
  show ?thesis
    unfolding MetricCollector_flush_def collectCurrentMetrics_def example_collector_def
    by (simp add: getAccumulatedValue_fp_def getAccumulatedValue_int_def
        mkTypedMetricValue_def g v l fixed2_example write_and_reset_def writeMetrics_def write_entries_eq
        entry_line_ops_def valid_examples show_dec_examples toString_int_def toString_fp_def
        example_writer_def stream_flush_def reset_def mkTypedMetric_def digit_def)
qed

subsection \<open>Sparse output (C1)\<close>

text \<open>
  C1 says that a registered metric with zero samples since its last reset has no
  entry in the output of a flush cycle. The collector tests the pointer returned by
  \<^verbatim>\<open>getAccumulatedValue\<close> for null, and the pointer is never null: with a
  \<^verbatim>\<open>double\<close> metric \<open>CPU\<close> that holds no sample and an \<^verbatim>\<open>int\<close> metric \<open>HTTP\<close>
  that holds two, the cycle produces an entry for \<open>CPU\<close> and writes the line
  \<^verbatim>\<open>1653 "CPU" 0\<close>.
\<close>

theorem C1_zero_sample_metric_gets_entry:
  "sample_count (DoubleMetric (mkTypedMetric ''CPU'')) = 0
   \<and> collect_entries (1653 :: nat)
        [DoubleMetric (mkTypedMetric ''CPU''),
         IntMetric \<lparr> tm_name = ''HTTP'', tm_accumulated_value = 30, tm_count = 2 \<rparr>]
     = [\<lparr> entry_timestamp = 1653, entry_name = ''CPU'',
          entry_value = DoubleValue \<lparr> mv_value = 0, mv_count = 0 \<rparr> \<rparr>,
        \<lparr> entry_timestamp = 1653, entry_name = ''HTTP'',
          entry_value = IntValue \<lparr> mv_value = 30, mv_count = 1 \<rparr> \<rparr>]
   \<and> collectCurrentMetrics example_lib 1653
        (example_collector
           [DoubleMetric (mkTypedMetric ''CPU''),
            IntMetric \<lparr> tm_name = ''HTTP'', tm_accumulated_value = 30, tm_count = 2 \<rparr>]
           True True)
     = (\<lparr> metrics = [DoubleMetric (mkTypedMetric ''CPU''), IntMetric (mkTypedMetric ''HTTP'')],
          running = True,
          writer = \<lparr> output_file = ''metrics.txt'',
            file_stream = \<lparr> is_open = True, failed = False,
              ops = [Put ''1653'', Put '' '', Put (CHR 0x22 # ''CPU'' @ [CHR 0x22]), Put '' '',
                     Put ''0'', Endl,
                     Put ''1653'', Put '' '', Put (CHR 0x22 # ''HTTP'' @ [CHR 0x22]), Put '' '',
                     Put ''30'', Endl,
                     Flush] \<rparr> \<rparr> \<rparr>,
        [])"
proof -
  have g: "getValue_int \<lparr> mv_value = 30 :: 32 word, mv_count = 1 \<rparr> = 30"
    by (simp add: getValue_int_def)
  show ?thesis
    unfolding collectCurrentMetrics_def example_collector_def
    by (simp add: getAccumulatedValue_fp_def getAccumulatedValue_int_def
        mkTypedMetricValue_def g write_and_reset_def writeMetrics_def write_entries_eq
        entry_line_ops_def valid_examples show_dec_examples toString_int_def toString_fp_def
        example_writer_def example_lib_def stream_flush_def reset_def mkTypedMetric_def digit_def)
qed

subsection \<open>Reduction of the recorded values (C2)\<close>

text \<open>
  C2, as the code has it. Take a metric in its reset state and record a sequence of
  fewer than \<open>2 ^ 64\<close> values (the sample counter is a \<^verbatim>\<open>size_t\<close>). For a
  floating-point metric the value object returned by \<^verbatim>\<open>getAccumulatedValue\<close> reads
  as the arithmetic mean of the values (in exact real arithmetic). For an integral
  metric it reads as the sum of the values in the metric's own integer type, that is
  modulo \<open>2 ^ w\<close>; it is the exact sum whenever the exact sum is representable in
  \<open>w\<close> bits. \<^verbatim>\<open>reset\<close> leaves total and count zero, and a flush cycle whose write
  succeeds resets every metric of the collector.
\<close>

theorem C2_flushed_value:
  fixes xs :: "real list" and ys :: "'a::len word list"
  assumes "length xs < 2 ^ 64" and "length ys < 2 ^ 64"
  shows "map_option getValue_fp (getAccumulatedValue_fp (fold recordValue xs (reset mf)))
           = Some (sum_list xs / real (length xs))
       \<and> map_option getValue_int (getAccumulatedValue_int (fold recordValue ys (reset mi)))
           = Some (sum_list ys)
       \<and> (- (2 ^ (LENGTH('a) - 1)) \<le> sum_list (map sint ys)
            \<and> sum_list (map sint ys) < 2 ^ (LENGTH('a) - 1)
          \<longrightarrow> map_option (sint \<circ> getValue_int)
                (getAccumulatedValue_int (fold recordValue ys (reset mi)))
              = Some (sum_list (map sint ys)))
       \<and> tm_accumulated_value (reset (fold recordValue xs (reset mf))) = 0
       \<and> tm_count (reset (fold recordValue xs (reset mf))) = 0
       \<and> tm_accumulated_value (reset (fold recordValue ys (reset mi))) = 0
       \<and> tm_count (reset (fold recordValue ys (reset mi))) = 0
       \<and> (is_open (file_stream (writer c)) \<and> metrics c \<noteq> []
          \<longrightarrow> metrics (fst (collectCurrentMetrics lib ts c)) = map reset_metric (metrics c))"
proof -
  have exact: "map_option (sint \<circ> getValue_int)
                (getAccumulatedValue_int (fold recordValue ys (reset mi)))
              = Some (sum_list (map sint ys))"
    if "- (2 ^ (LENGTH('a) - 1)) \<le> sum_list (map sint ys)"
      and "sum_list (map sint ys) < 2 ^ (LENGTH('a) - 1)"
  proof -
    have "map_option (sint \<circ> getValue_int)
            (getAccumulatedValue_int (fold recordValue ys (reset mi)))
          = map_option sint (map_option getValue_int
              (getAccumulatedValue_int (fold recordValue ys (reset mi))))"
      by (simp add: option.map_comp)
    also have "\<dots> = Some (sint (sum_list ys))"
      by (simp only: flushed_sum [OF assms(2)] option.map)
    finally show ?thesis
      by (simp only: sint_sum_list_exact [OF that])
  qed
  show ?thesis
  proof (intro conjI impI)
    show "map_option getValue_fp (getAccumulatedValue_fp (fold recordValue xs (reset mf)))
            = Some (sum_list xs / real (length xs))"
      by (rule flushed_mean [OF assms(1)])
    show "map_option getValue_int (getAccumulatedValue_int (fold recordValue ys (reset mi)))
            = Some (sum_list ys)"
      by (rule flushed_sum [OF assms(2)])
    show "map_option (sint \<circ> getValue_int)
            (getAccumulatedValue_int (fold recordValue ys (reset mi)))
          = Some (sum_list (map sint ys))"
      if "- (2 ^ (LENGTH('a) - 1)) \<le> sum_list (map sint ys)
            \<and> sum_list (map sint ys) < 2 ^ (LENGTH('a) - 1)"
      using that by (simp add: exact)
    show "metrics (fst (collectCurrentMetrics lib ts c)) = map reset_metric (metrics c)"
      if "is_open (file_stream (writer c)) \<and> metrics c \<noteq> []"
      using that by (simp add: successful_flush_resets)
  qed (simp_all add: reset_def)
qed

theorem C2_flushed_value_witness:
  "length [1 / 2, 1 :: real] < 2 ^ 64 \<and> length [10, 20 :: 32 word] < 2 ^ 64
   \<and> - (2 ^ (LENGTH(32) - 1)) \<le> sum_list (map sint [10, 20 :: 32 word])
   \<and> sum_list (map sint [10, 20 :: 32 word]) < 2 ^ (LENGTH(32) - 1)
   \<and> is_open (file_stream (writer (example_collector [DoubleMetric (mkTypedMetric ''CPU'')] True True)))
   \<and> metrics (example_collector [DoubleMetric (mkTypedMetric ''CPU'')] True True) \<noteq> []
   \<and> map_option getValue_fp
        (getAccumulatedValue_fp (fold recordValue [1 / 2, 1] (reset (mkTypedMetric ''CPU''))))
       = Some (3 / 4)
   \<and> map_option (sint \<circ> getValue_int)
        (getAccumulatedValue_int
           (fold recordValue [10, 20 :: 32 word] (reset (mkTypedMetric ''HTTP''))))
       = Some 30
   \<and> metrics (fst (collectCurrentMetrics example_lib 1653
         (example_collector [DoubleMetric (mkTypedMetric ''CPU'')] True True)))
       = [DoubleMetric (mkTypedMetric ''CPU'')]"
  using C2_flushed_value [of "[1 / 2, 1]" "[10, 20 :: 32 word]" "mkTypedMetric ''CPU''"
      "mkTypedMetric ''HTTP''" "example_collector [DoubleMetric (mkTypedMetric ''CPU'')] True True"
      example_lib 1653]
  by (simp add: example_collector_def example_writer_def reset_def mkTypedMetric_def)

text \<open>
  C2 as stated fails for an \<^verbatim>\<open>int\<close> metric that records \<open>2147483647\<close> and then
  \<open>1\<close>: the flushed value is \<open>-2147483648\<close>, the exact sum is \<open>2147483648\<close>. It
  also fails after a flush cycle whose write throws (the file is not open): the
  accumulator keeps its total and count.
\<close>

theorem C2_counterexample:
  "getAccumulatedValue_int
      (fold recordValue [0x7FFFFFFF, 1] (mkTypedMetric ''HTTP'' :: 32 word TypedMetric))
     = Some \<lparr> mv_value = 0x80000000, mv_count = 1 \<rparr>
   \<and> sint (getValue_int \<lparr> mv_value = 0x80000000 :: 32 word, mv_count = 1 \<rparr>) = - 2147483648
   \<and> sum_list (map sint [0x7FFFFFFF, 1 :: 32 word]) = 2147483648
   \<and> metrics (fst (collectCurrentMetrics example_lib 1653
        (example_collector
           [IntMetric \<lparr> tm_name = ''HTTP'', tm_accumulated_value = 10, tm_count = 1 \<rparr>]
           True False)))
     = [IntMetric \<lparr> tm_name = ''HTTP'', tm_accumulated_value = 10, tm_count = 1 \<rparr>]"
  by (simp add: getAccumulatedValue_int_def recordValue_def mkTypedMetric_def
      mkTypedMetricValue_def getValue_int_def collectCurrentMetrics_def write_and_reset_def
      writeMetrics_def example_collector_def example_writer_def)

subsection \<open>Reset after a successful write (C3)\<close>

text \<open>
  What the collector does by its structure: if \<^verbatim>\<open>writeMetrics\<close> throws, the
  collector is left exactly as it was and the failure is logged; and if the cycle
  changed the metrics, then \<^verbatim>\<open>writeMetrics\<close> had returned without an exception.
\<close>

lemma reset_only_after_normal_return:
  "(fst (writeMetrics lib (collect_entries ts (metrics c)) (writer c)) \<noteq> None
      \<longrightarrow> collectCurrentMetrics lib ts c
            = (c, [''Error writing metrics: Output file is not open'']))
   \<and> (metrics (fst (collectCurrentMetrics lib ts c)) \<noteq> metrics c
      \<longrightarrow> fst (writeMetrics lib (collect_entries ts (metrics c)) (writer c)) = None
          \<and> collect_entries ts (metrics c) \<noteq> []
          \<and> metrics (fst (collectCurrentMetrics lib ts c)) = map reset_metric (metrics c))"
  by (auto simp: collectCurrentMetrics_def write_and_reset_def writeMetrics_def
      split: prod.splits option.splits if_splits)

text \<open>
  \<^verbatim>\<open>writeMetrics\<close> throws only when the file is not open, and otherwise returns
  without an exception, whatever the error state of the stream.
\<close>

lemma writeMetrics_throws_iff:
  "fst (writeMetrics lib entries w) \<noteq> None \<longleftrightarrow> entries \<noteq> [] \<and> \<not> is_open (file_stream w)"
  by (simp add: writeMetrics_def split: prod.splits)

text \<open>
  An entry that \<^verbatim>\<open>writeMetrics\<close> skips is not written either, and its metric is
  reset all the same: a metric stored under the empty name, holding one sample of
  7, is logged as skipped, only \<^verbatim>\<open>flush()\<close> reaches the stream, and the metric is
  reset.
\<close>

lemma skipped_entry_still_reset:
  "collectCurrentMetrics example_lib 1653
     (example_collector
        [IntMetric \<lparr> tm_name = [], tm_accumulated_value = 7, tm_count = 1 \<rparr>] True True)
   = (\<lparr> metrics = [IntMetric \<lparr> tm_name = [], tm_accumulated_value = 0, tm_count = 0 \<rparr>],
        running = True,
        writer = \<lparr> output_file = ''metrics.txt'',
          file_stream = \<lparr> is_open = True, failed = False, ops = [Flush] \<rparr> \<rparr> \<rparr>,
      [''Error formatting metric entry '' @ [CHR 0x27, CHR 0x27]
         @ '': Cannot format invalid metric name: ''])"
  unfolding collectCurrentMetrics_def example_collector_def
  by (simp add: getAccumulatedValue_int_def mkTypedMetricValue_def write_and_reset_def
      writeMetrics_def write_entries_eq valid_examples skipped_message_def example_writer_def
      stream_flush_def reset_def)

text \<open>
  C3 says that the accumulators are reset only after the write has succeeded, and
  that a flush cycle whose write fails resets no metric, so that the counters are
  kept for the next cycle. The collector resets when \<^verbatim>\<open>writeMetrics\<close> has not
  thrown (its comment reads \<^verbatim>\<open>Reset metrics after successful write\<close>), and
  \<^verbatim>\<open>writeMetrics\<close> never tests the state of the stream. Take a running collector
  whose file is open and whose stream has failed, with \<open>HTTP\<close> holding one sample
  of 10: the cycle applies the line and \<^verbatim>\<open>flush()\<close> to the failed stream (nothing
  reaches the file), \<^verbatim>\<open>writeMetrics\<close> returns without an exception, nothing is
  logged, and \<open>HTTP\<close> is reset to total 0 and count 0.
\<close>

theorem C3_failed_write_still_resets:
  "writeMetrics example_lib
     [\<lparr> entry_timestamp = 1653, entry_name = ''HTTP'',
        entry_value = IntValue \<lparr> mv_value = 10, mv_count = 1 \<rparr> \<rparr>]
     \<lparr> output_file = ''metrics.txt'',
       file_stream = \<lparr> is_open = True, failed = True, ops = [] \<rparr> \<rparr>
   = (None,
      \<lparr> output_file = ''metrics.txt'',
        file_stream = \<lparr> is_open = True, failed = True,
          ops = [Put ''1653'', Put '' '', Put (CHR 0x22 # ''HTTP'' @ [CHR 0x22]), Put '' '',
                 Put ''10'', Endl, Flush] \<rparr> \<rparr>,
      [])
   \<and> collectCurrentMetrics example_lib 1653
       \<lparr> metrics = [IntMetric \<lparr> tm_name = ''HTTP'', tm_accumulated_value = 10, tm_count = 1 \<rparr>],
         running = True,
         writer = \<lparr> output_file = ''metrics.txt'',
           file_stream = \<lparr> is_open = True, failed = True, ops = [] \<rparr> \<rparr> \<rparr>
     = (\<lparr> metrics = [IntMetric \<lparr> tm_name = ''HTTP'', tm_accumulated_value = 0, tm_count = 0 \<rparr>],
          running = True,
          writer = \<lparr> output_file = ''metrics.txt'',
            file_stream = \<lparr> is_open = True, failed = True,
              ops = [Put ''1653'', Put '' '', Put (CHR 0x22 # ''HTTP'' @ [CHR 0x22]), Put '' '',
                     Put ''10'', Endl, Flush] \<rparr> \<rparr> \<rparr>,
        [])"
proof -
  have g: "getValue_int \<lparr> mv_value = 10 :: 32 word, mv_count = 1 \<rparr> = 10"
    by (simp add: getValue_int_def)
  have l: "formatTimestamp example_lib = show_nat" "show_int example_lib = show_dec"
    by (simp_all add: example_lib_def)
  have w: "writeMetrics example_lib
     [\<lparr> entry_timestamp = 1653, entry_name = ''HTTP'',
        entry_value = IntValue \<lparr> mv_value = 10, mv_count = 1 \<rparr> \<rparr>]
     \<lparr> output_file = ''metrics.txt'',
       file_stream = \<lparr> is_open = True, failed = True, ops = [] \<rparr> \<rparr>
   = (None,
      \<lparr> output_file = ''metrics.txt'',
        file_stream = \<lparr> is_open = True, failed = True,
          ops = [Put ''1653'', Put '' '', Put (CHR 0x22 # ''HTTP'' @ [CHR 0x22]), Put '' '',
                 Put ''10'', Endl, Flush] \<rparr> \<rparr>,
      [])"
    by (simp add: g l writeMetrics_def write_entries_eq entry_line_ops_def valid_examples
        show_dec_examples toString_int_def stream_flush_def digit_def)
  have c: "collectCurrentMetrics example_lib 1653
       \<lparr> metrics = [IntMetric \<lparr> tm_name = ''HTTP'', tm_accumulated_value = 10, tm_count = 1 \<rparr>],
         running = True,
         writer = \<lparr> output_file = ''metrics.txt'',
           file_stream = \<lparr> is_open = True, failed = True, ops = [] \<rparr> \<rparr> \<rparr>
     = (\<lparr> metrics = [IntMetric \<lparr> tm_name = ''HTTP'', tm_accumulated_value = 0, tm_count = 0 \<rparr>],
          running = True,
          writer = \<lparr> output_file = ''metrics.txt'',
            file_stream = \<lparr> is_open = True, failed = True,
              ops = [Put ''1653'', Put '' '', Put (CHR 0x22 # ''HTTP'' @ [CHR 0x22]), Put '' '',
                     Put ''10'', Endl, Flush] \<rparr> \<rparr> \<rparr>,
        [])"
    unfolding collectCurrentMetrics_def
    by (simp add: getAccumulatedValue_int_def mkTypedMetricValue_def w write_and_reset_def
        reset_def)
  show ?thesis
    using w c by (intro conjI)
qed

subsection \<open>Snapshot and reset under concurrent producers (C4)\<close>

text \<open>
  C4 says that reading the reduced value and resetting the accumulator are one
  critical section, so that no \<^verbatim>\<open>record\<close> call is lost between them. In the source
  they are two: \<^verbatim>\<open>collectCurrentMetrics\<close> reads every metric under
  \<^verbatim>\<open>metrics_mutex_\<close>, releases it, writes, and takes it again for the resets. A
  producer that runs in between is modelled by running \<open>recordMetric\<close> between
  \<open>collect_entries\<close> and \<open>write_and_reset\<close>. With \<open>HTTP\<close> holding one sample
  of 10: the snapshot holds 10; the producer records 20 (total 30, count 2); the
  cycle writes \<^verbatim>\<open>1653 "HTTP" 10\<close> and resets the metric to total 0 and count 0. The
  sample 20 is neither in the snapshot nor in the accumulator.
\<close>

theorem C4_sample_lost_between_snapshot_and_reset:
  "collect_entries (1653 :: nat)
      (metrics (example_collector
         [IntMetric \<lparr> tm_name = ''HTTP'', tm_accumulated_value = 10, tm_count = 1 \<rparr>] True True))
     = [\<lparr> entry_timestamp = 1653, entry_name = ''HTTP'',
          entry_value = IntValue \<lparr> mv_value = 10, mv_count = 1 \<rparr> \<rparr>]
   \<and> recordMetric ''HTTP'' (IntSample 20)
        (example_collector
           [IntMetric \<lparr> tm_name = ''HTTP'', tm_accumulated_value = 10, tm_count = 1 \<rparr>] True True)
     = (example_collector
           [IntMetric \<lparr> tm_name = ''HTTP'', tm_accumulated_value = 30, tm_count = 2 \<rparr>] True True,
        [])
   \<and> write_and_reset example_lib
        [\<lparr> entry_timestamp = 1653, entry_name = ''HTTP'',
           entry_value = IntValue \<lparr> mv_value = 10, mv_count = 1 \<rparr> \<rparr>]
        (example_collector
           [IntMetric \<lparr> tm_name = ''HTTP'', tm_accumulated_value = 30, tm_count = 2 \<rparr>] True True)
     = (\<lparr> metrics = [IntMetric \<lparr> tm_name = ''HTTP'', tm_accumulated_value = 0, tm_count = 0 \<rparr>],
          running = True,
          writer = \<lparr> output_file = ''metrics.txt'',
            file_stream = \<lparr> is_open = True, failed = False,
              ops = [Put ''1653'', Put '' '', Put (CHR 0x22 # ''HTTP'' @ [CHR 0x22]), Put '' '',
                     Put ''10'', Endl, Flush] \<rparr> \<rparr> \<rparr>,
        [])"
proof -
  have g: "getValue_int \<lparr> mv_value = 10 :: 32 word, mv_count = 1 \<rparr> = 10"
    by (simp add: getValue_int_def)
  have snapshot: "collect_entries (1653 :: nat)
      (metrics (example_collector
         [IntMetric \<lparr> tm_name = ''HTTP'', tm_accumulated_value = 10, tm_count = 1 \<rparr>] True True))
     = [\<lparr> entry_timestamp = 1653, entry_name = ''HTTP'',
          entry_value = IntValue \<lparr> mv_value = 10, mv_count = 1 \<rparr> \<rparr>]"
    by (simp add: example_collector_def getAccumulatedValue_int_def mkTypedMetricValue_def)
  have producer: "recordMetric ''HTTP'' (IntSample 20)
        (example_collector
           [IntMetric \<lparr> tm_name = ''HTTP'', tm_accumulated_value = 10, tm_count = 1 \<rparr>] True True)
     = (example_collector
           [IntMetric \<lparr> tm_name = ''HTTP'', tm_accumulated_value = 30, tm_count = 2 \<rparr>] True True,
        [])"
    by (simp add: recordMetric_def record_target_def recordValue_def example_collector_def)
  have rest: "write_and_reset example_lib
        [\<lparr> entry_timestamp = 1653, entry_name = ''HTTP'',
           entry_value = IntValue \<lparr> mv_value = 10, mv_count = 1 \<rparr> \<rparr>]
        (example_collector
           [IntMetric \<lparr> tm_name = ''HTTP'', tm_accumulated_value = 30, tm_count = 2 \<rparr>] True True)
     = (\<lparr> metrics = [IntMetric \<lparr> tm_name = ''HTTP'', tm_accumulated_value = 0, tm_count = 0 \<rparr>],
          running = True,
          writer = \<lparr> output_file = ''metrics.txt'',
            file_stream = \<lparr> is_open = True, failed = False,
              ops = [Put ''1653'', Put '' '', Put (CHR 0x22 # ''HTTP'' @ [CHR 0x22]), Put '' '',
                     Put ''10'', Endl, Flush] \<rparr> \<rparr> \<rparr>,
        [])"
    by (simp add: g write_and_reset_def writeMetrics_def write_entries_eq
        entry_line_ops_def valid_examples show_dec_examples toString_int_def
        example_collector_def example_writer_def example_lib_def stream_flush_def reset_def
        digit_def)
  show ?thesis
    using snapshot producer rest by (intro conjI)
qed

subsection \<open>Duplicate registration (C5)\<close>

text \<open>
  C5: registering a name that is already registered throws
  \<^verbatim>\<open>std::invalid_argument("Metric already registered: " + name)\<close> and leaves the
  collector as it was: the metric registered first keeps its place, its type and
  its accumulated state. The same holds for \<^verbatim>\<open>MetricRegistry::registerMetric\<close>
  (for a valid name, which is checked first).
\<close>

theorem C5_duplicate_registration_rejected:
  "(name \<in> getName ` set (metrics c)
      \<longrightarrow> registerMetric T name c
            = (Some (invalid_argument (''Metric already registered: '' @ name)), c))
   \<and> (isValidName name \<and> r name \<noteq> None
      \<longrightarrow> MetricRegistry_registerMetric name metric r
            = (Some (invalid_argument (''Metric already registered: '' @ name)), r))"
proof (intro conjI impI)
  assume "name \<in> getName ` set (metrics c)"
  then have "find_if (\<lambda>metric. getName metric = name) (metrics c) \<noteq> None"
    by (auto simp: find_if_None_iff)
  then show "registerMetric T name c
               = (Some (invalid_argument (''Metric already registered: '' @ name)), c)"
    by (auto simp: registerMetric_def split: option.splits)
next
  assume "isValidName name \<and> r name \<noteq> None"
  then show "MetricRegistry_registerMetric name metric r
               = (Some (invalid_argument (''Metric already registered: '' @ name)), r)"
    by (simp add: MetricRegistry_registerMetric_def)
qed

theorem C5_duplicate_registration_rejected_witness:
  "registerMetric T_int ''HTTP'' (example_collector [] True True)
     = (None, example_collector [IntMetric (mkTypedMetric ''HTTP'')] True True)
   \<and> ''HTTP'' \<in> getName ` set (metrics (example_collector
        [IntMetric \<lparr> tm_name = ''HTTP'', tm_accumulated_value = 10, tm_count = 1 \<rparr>] True True))
   \<and> registerMetric T_double ''HTTP'' (example_collector
        [IntMetric \<lparr> tm_name = ''HTTP'', tm_accumulated_value = 10, tm_count = 1 \<rparr>] True True)
     = (Some (invalid_argument ''Metric already registered: HTTP''),
        example_collector
          [IntMetric \<lparr> tm_name = ''HTTP'', tm_accumulated_value = 10, tm_count = 1 \<rparr>] True True)
   \<and> isValidName ''HTTP''
   \<and> [''HTTP'' \<mapsto> IntMetric (mkTypedMetric ''HTTP'')] ''HTTP'' \<noteq> None
   \<and> MetricRegistry_registerMetric ''HTTP'' (DoubleMetric (mkTypedMetric ''HTTP''))
        [''HTTP'' \<mapsto> IntMetric (mkTypedMetric ''HTTP'')]
     = (Some (invalid_argument ''Metric already registered: HTTP''),
        [''HTTP'' \<mapsto> IntMetric (mkTypedMetric ''HTTP'')])"
proof -
  have valid: "isValidName ''HTTP''"
    by (simp add: isValidName_def invalid_char_def char_value_def)
  show ?thesis
    using valid
      C5_duplicate_registration_rejected [of "''HTTP''"
        "example_collector
          [IntMetric \<lparr> tm_name = ''HTTP'', tm_accumulated_value = 10, tm_count = 1 \<rparr>] True True"
        T_double "[''HTTP'' \<mapsto> IntMetric (mkTypedMetric ''HTTP'')]"
        "DoubleMetric (mkTypedMetric ''HTTP'')"]
    by (simp add: example_collector_def registerMetric_def)
qed

subsection \<open>Validation of names at registration (C6)\<close>

text \<open>
  C6 says that registration rejects a malformed name, so that no metric is stored
  under one. \<^verbatim>\<open>MetricRegistry::registerMetric\<close> does reject it, but the collector
  keeps its metrics in a vector of its own and \<^verbatim>\<open>MetricCollector::registerMetric\<close>
  never calls the validator: it stores a metric under the empty name and under a
  name that contains a double quote.
\<close>

theorem C6_collector_stores_invalid_names:
  "\<not> isValidName '''' \<and> \<not> isValidName [CHR ''a'', CHR 0x22]
   \<and> registerMetric T_int '''' (example_collector [] True True)
     = (None, example_collector [IntMetric (mkTypedMetric '''')] True True)
   \<and> registerMetric T_double [CHR ''a'', CHR 0x22] (example_collector [] True True)
     = (None, example_collector [DoubleMetric (mkTypedMetric [CHR ''a'', CHR 0x22])] True True)
   \<and> MetricRegistry_registerMetric '''' (IntMetric (mkTypedMetric '''')) Map.empty
     = (Some (invalid_argument ''Invalid metric name: ''), Map.empty)"
  by (simp add: valid_examples registerMetric_def example_collector_def
      MetricRegistry_registerMetric_def)

subsection \<open>A value of the wrong type (C7)\<close>

text \<open>
  What \<^verbatim>\<open>recordMetric\<close> does with a value whose type differs from the type of
  the metric the name resolves to, while the collector is running: the collector is
  unchanged and nothing is logged.
\<close>

lemma type_mismatch_dropped_silently:
  assumes "running c"
    and "find_if (\<lambda>metric. getName metric = name) (metrics c) = Some it"
    and "metric_type (metrics c ! it) \<noteq> sample_type v"
  shows "recordMetric name v c = (c, [])"
  using assms
  by (simp add: recordMetric_def record_target_def record_typed_None_iff [THEN iffD2])

text \<open>
  C7 says that such a call is dropped and logged, that no error reaches the caller
  and that the accumulated state is unchanged. The call is dropped, no error
  reaches the caller and the state is unchanged, but nothing is logged. The source
  wraps the cast and the call in a handler that logs
  \<^verbatim>\<open>Failed to record metric\<close>; the cast of a pointer yields null instead of
  throwing and the test \<^verbatim>\<open>if (typed_metric)\<close> has no other branch, so the handler
  is never entered. The overload of \<^verbatim>\<open>recordValue\<close> that takes a
  \<^verbatim>\<open>MetricValue\<close> throws on the same mismatch. Here a \<^verbatim>\<open>double\<close> is recorded
  on the \<^verbatim>\<open>int\<close> metric \<open>HTTP\<close> of a running collector.
\<close>

theorem C7_type_mismatch_not_logged:
  "running (example_collector [IntMetric (mkTypedMetric ''HTTP'')] True True)
   \<and> metric_type (IntMetric (mkTypedMetric ''HTTP'')) \<noteq> sample_type (DoubleSample (3 / 2))
   \<and> recordMetric ''HTTP'' (DoubleSample (3 / 2))
        (example_collector [IntMetric (mkTypedMetric ''HTTP'')] True True)
     = (example_collector [IntMetric (mkTypedMetric ''HTTP'')] True True, [])
   \<and> recordValue_ptr (DoubleValue (mkTypedMetricValue (3 / 2)))
        (IntMetric (mkTypedMetric ''HTTP''))
     = Inl (invalid_argument ''Invalid metric value type for metric: HTTP'')"
  by (simp add: recordMetric_def record_target_def example_collector_def mkTypedMetric_def)

subsection \<open>Recording while the collector is idle (C8)\<close>

text \<open>
  C8: a \<^verbatim>\<open>recordMetric\<close> call on a collector that is not running returns without
  an error and without logging, and leaves the collector (its metrics, their
  accumulated state, its writer) exactly as it was.
\<close>

theorem C8_record_while_idle_dropped:
  "\<not> running c \<Longrightarrow> recordMetric name v c = (c, [])"
  by (simp add: recordMetric_def)

theorem C8_record_while_idle_dropped_witness:
  "\<not> running (example_collector [IntMetric (mkTypedMetric ''HTTP'')] False True)
   \<and> recordMetric ''HTTP'' (IntSample 5)
        (example_collector [IntMetric (mkTypedMetric ''HTTP'')] False True)
     = (example_collector [IntMetric (mkTypedMetric ''HTTP'')] False True, [])
   \<and> recordMetric ''CPU'' (DoubleSample 1)
        (example_collector [IntMetric (mkTypedMetric ''HTTP'')] False True)
     = (example_collector [IntMetric (mkTypedMetric ''HTTP'')] False True, [])"
  using C8_record_while_idle_dropped
      [of "example_collector [IntMetric (mkTypedMetric ''HTTP'')] False True"]
  by (simp add: example_collector_def)

subsection \<open>An entry that cannot be serialised (C9)\<close>

text \<open>
  C9: for a non-empty list of entries, \<^verbatim>\<open>writeMetrics\<close> returns without an
  exception exactly when the stream is open, and then: every entry whose name
  formats has its line put on the stream, in the order of the list; every entry
  whose name does not format is skipped, with one line logged for it; and the last
  operation on the stream is \<^verbatim>\<open>flush()\<close>.
\<close>

theorem C9_bad_entry_skipped_rest_written:
  assumes "entries \<noteq> []"
  shows "(fst (writeMetrics lib entries w) = None \<longleftrightarrow> is_open (file_stream w))
       \<and> (is_open (file_stream w) \<longrightarrow>
          writeMetrics lib entries w =
           (None,
            w\<lparr> file_stream := (file_stream w)
                 \<lparr> ops := ops (file_stream w)
                     @ concat (map (entry_line_ops lib)
                                 (filter (\<lambda>e. isValidName (entry_name e)) entries))
                     @ [Flush] \<rparr> \<rparr>,
            map skipped_message (filter (\<lambda>e. \<not> isValidName (entry_name e)) entries)))"
  using assms by (simp add: writeMetrics_def write_entries_eq stream_flush_def)

theorem C9_bad_entry_skipped_rest_written_witness:
  "[\<lparr> entry_timestamp = 1653, entry_name = ''CPU'', entry_value = DoubleValue (mkTypedMetricValue 0) \<rparr>,
    \<lparr> entry_timestamp = 1653, entry_name = '''', entry_value = IntValue (mkTypedMetricValue 7) \<rparr>,
    \<lparr> entry_timestamp = 1653, entry_name = ''HTTP'', entry_value = IntValue (mkTypedMetricValue 30) \<rparr>]
     \<noteq> []
   \<and> is_open (file_stream (example_writer True))
   \<and> fst (writeMetrics example_lib
        [\<lparr> entry_timestamp = 1653, entry_name = ''CPU'', entry_value = DoubleValue (mkTypedMetricValue 0) \<rparr>,
         \<lparr> entry_timestamp = 1653, entry_name = '''', entry_value = IntValue (mkTypedMetricValue 7) \<rparr>,
         \<lparr> entry_timestamp = 1653, entry_name = ''HTTP'', entry_value = IntValue (mkTypedMetricValue 30) \<rparr>]
        (example_writer True)) = None
   \<and> writeMetrics example_lib
        [\<lparr> entry_timestamp = 1653, entry_name = ''CPU'', entry_value = DoubleValue (mkTypedMetricValue 0) \<rparr>,
         \<lparr> entry_timestamp = 1653, entry_name = '''', entry_value = IntValue (mkTypedMetricValue 7) \<rparr>,
         \<lparr> entry_timestamp = 1653, entry_name = ''HTTP'', entry_value = IntValue (mkTypedMetricValue 30) \<rparr>]
        (example_writer True)
     = (None,
        \<lparr> output_file = ''metrics.txt'',
          file_stream = \<lparr> is_open = True, failed = False,
            ops = [Put ''1653'', Put '' '', Put (CHR 0x22 # ''CPU'' @ [CHR 0x22]), Put '' '',
                   Put ''0'', Endl,
                   Put ''1653'', Put '' '', Put (CHR 0x22 # ''HTTP'' @ [CHR 0x22]), Put '' '',
                   Put ''30'', Endl,
                   Flush] \<rparr> \<rparr>,
        [''Error formatting metric entry '' @ [CHR 0x27, CHR 0x27]
           @ '': Cannot format invalid metric name: ''])"
proof -
  have v1: "isValidName ''CPU''" and v2: "\<not> isValidName ''''" and v3: "isValidName ''HTTP''"
    by (simp_all add: isValidName_def invalid_char_def char_value_def)
  have s30: "show_dec 30 = ''30''"
    by (simp add: show_dec_def digit_def)
  have ts: "show_nat 1653 = ''1653''"
    by (simp add: digit_def)
  have g30: "getValue_int (mkTypedMetricValue (30 :: 32 word)) = 30"
    by (rule getValue_int_mk)
  have c30: "mv_count (mkTypedMetricValue (30 :: 32 word)) = 1"
    and c0: "mv_count (mkTypedMetricValue (0 :: real)) = 0"
    by (simp_all add: mkTypedMetricValue_def)
  show ?thesis
    using C9_bad_entry_skipped_rest_written [of
        "[\<lparr> entry_timestamp = 1653, entry_name = ''CPU'', entry_value = DoubleValue (mkTypedMetricValue 0) \<rparr>,
         \<lparr> entry_timestamp = 1653, entry_name = '''', entry_value = IntValue (mkTypedMetricValue 7) \<rparr>,
         \<lparr> entry_timestamp = 1653, entry_name = ''HTTP'', entry_value = IntValue (mkTypedMetricValue 30) \<rparr>]"
        example_lib "example_writer True"]
    by (simp add: v1 v2 v3 s30 ts g30 c30 c0 digit_def example_writer_def example_lib_def entry_line_ops_def
        skipped_message_def toString_int_def toString_fp_def)
qed

subsection \<open>A fractional value that reduces to zero (C10)\<close>

text \<open>
  C10: when the value object that \<^verbatim>\<open>getAccumulatedValue\<close> returns for a
  floating-point metric reads as zero, its sample count is 0 and it renders as
  \<^verbatim>\<open>0\<close>, not as the two-decimal \<^verbatim>\<open>0.00\<close>, for \<^verbatim>\<open>double\<close> and for
  \<^verbatim>\<open>float\<close>.
\<close>

theorem C10_zero_mean_renders_as_0:
  assumes "getAccumulatedValue_fp m = Some mv" and "getValue_fp mv = 0"
  shows "mv_count mv = 0
       \<and> toString lib (DoubleValue mv) = ''0''
       \<and> toString lib (FloatValue mv) = ''0''
       \<and> toString lib (DoubleValue mv) \<noteq> ''0.00''"
  using assms
  by (auto simp: getAccumulatedValue_fp_def toString_fp_def mkTypedMetricValue_def
      getValue_fp_def Let_def split: if_splits)

theorem C10_zero_mean_renders_as_0_witness:
  "getAccumulatedValue_fp (fold recordValue [1, - 1] (mkTypedMetric ''CPU''))
     = Some \<lparr> mv_value = 0, mv_count = 0 \<rparr>
   \<and> getValue_fp \<lparr> mv_value = 0, mv_count = 0 \<rparr> = 0
   \<and> tm_count (fold recordValue [1, - 1 :: real] (mkTypedMetric ''CPU'')) = 2
   \<and> toString example_lib (DoubleValue \<lparr> mv_value = 0, mv_count = 0 \<rparr>) = ''0''"
proof -
  have a: "getAccumulatedValue_fp (fold recordValue [1, - 1] (mkTypedMetric ''CPU''))
     = Some \<lparr> mv_value = 0, mv_count = 0 \<rparr>"
    by (simp add: getAccumulatedValue_fp_def recordValue_def mkTypedMetric_def
        mkTypedMetricValue_def)
  have b: "getValue_fp \<lparr> mv_value = 0, mv_count = 0 \<rparr> = 0"
    by (simp add: getValue_fp_def)
  have c: "tm_count (fold recordValue [1, - 1 :: real] (mkTypedMetric ''CPU'')) = 2"
    by (simp add: recordValue_def mkTypedMetric_def)
  show ?thesis
    using a b c C10_zero_mean_renders_as_0 [OF a b, of example_lib]
    by simp
qed

end
